theory Spec2Isabelle
  imports Main
begin

section \<open>The streaming connection manager of tradesmartapi-js\<close>

text \<open>
  The class \<open>TradeSmartWS\<close> is event driven: the caller invokes \<open>connect\<close>,
  \<open>disconnect\<close>, \<open>subscribe\<close>, \<open>onData\<close> and \<open>onOrder\<close>; the transport
  (a \<open>ws\<close> WebSocket) calls the handlers \<open>onopen\<close>, \<open>onerror\<close>, \<open>onclose\<close> and
  \<open>onmessage\<close> that \<open>connect\<close> installs; the timers call the heartbeat callback
  and the reconnect callback. The model is a record holding the private fields of the
  class together with what the environment holds for it (the sockets created so far, the
  promises of the \<open>connect\<close> calls, the running timers), and one function per method,
  handler and timer callback taking the record and returning it updated. Everything a
  function does to the outside is appended to the field \<open>trace\<close>.
\<close>

subsection \<open>Values\<close>

text \<open>The \<open>readyState\<close> of a WebSocket.\<close>

datatype readyState = CONNECTING | OPEN | CLOSING | CLOSED

text \<open>A decoded JSON value: what \<open>JSON.parse\<close> returns and \<open>JSON.stringify\<close> takes.\<close>

datatype json =
    JNull
  | JBool bool
  | JNum int
  | JStr string
  | JArr "json list"
  | JObj "(string \<times> json) list"

text \<open>The exceptions of the class: \<open>new Error(msg)\<close> and the two the language raises.\<close>

datatype js_error = Error string | TypeError string | SyntaxError string

text \<open>
  A callback slot. The fields \<open>#onDataCallback\<close> and \<open>#onOrderCallback\<close> are declared
  without an initialiser, so they start as \<open>undefined\<close>; \<open>onData\<close> and \<open>onOrder\<close>
  store what the caller passes. A function is named by a number.
\<close>

datatype callback = Undefined | Null | Fn nat

text \<open>The two fields of an \<open>Instrument\<close> that \<open>subscribe\<close> reads.\<close>

record instrument =
  Exchange :: string
  Token :: string

text \<open>Who holds the promise of a \<open>connect\<close> call: the caller, or the reconnect timer,
  which attaches \<open>.catch(err => console.error("Reconnect failed:", err))\<close>.\<close>

datatype caller = ByCaller | ByTimer

datatype promise = Pending caller | Fulfilled | RejectedP

text \<open>Arguments of a console call: a string, a number, a JSON value, an event or error object.\<close>

datatype logarg = S string | N nat | J json | Ev

datatype effect =
    Created nat               \<comment> \<open>\<open>new WebSocket(url, ...)\<close> made socket number n\<close>
  | Sent nat json             \<comment> \<open>\<open>socket.send(JSON.stringify(obj))\<close> on socket n\<close>
  | CloseCalled nat           \<comment> \<open>\<open>socket.close()\<close> on socket n\<close>
  | IntervalSet nat nat       \<comment> \<open>\<open>setInterval(cb, duration)\<close> returned handle h\<close>
  | IntervalCleared nat       \<comment> \<open>\<open>clearInterval(h)\<close>\<close>
  | TimeoutSet nat nat        \<comment> \<open>\<open>setTimeout(cb, delay)\<close> returned handle h\<close>
  | Resolved nat              \<comment> \<open>the promise of the connect call that made socket n is fulfilled\<close>
  | Rejected nat              \<comment> \<open>that promise is rejected\<close>
  | ConsoleLog "logarg list"
  | ConsoleError "logarg list"
  | Invoked nat json          \<comment> \<open>callback f called with the decoded frame\<close>
  | Thrown js_error           \<comment> \<open>an exception left a handler\<close>
  | Failed js_error           \<comment> \<open>the promise \<open>subscribe\<close> returned is rejected with the error\<close>

subsection \<open>State\<close>

text \<open>
  The private fields of \<open>TradeSmartWS\<close>. A socket and a timer handle are numbers. The
  three credentials hold whatever the constructor read from its \<open>api\<close> argument: a
  string, or \<open>undefined\<close> (\<open>None\<close>) when the argument has no such property.
\<close>

record manager =
  socket :: "nat option"
  reconnectInterval :: nat
  reconnectAttempts :: nat
  currentReconnectAttempts :: nat
  heartBeatInterval :: "nat option"
  heartBeatDuration :: nat
  debug :: bool
  uid :: "string option"
  actid :: "string option"
  susertoken :: "string option"
  socketConnecting :: bool
  disconnectedManually :: bool
  webSocketURL :: string
  onDataCallback :: callback
  onOrderCallback :: callback

text \<open>
  The manager with its environment: \<open>sockets ! n\<close> is the \<open>readyState\<close> of socket n
  (every socket ever created stays in the list, with its handlers attached),
  \<open>promises ! n\<close> the promise of the \<open>connect\<close> call that created socket n,
  \<open>intervals\<close> the running \<open>setInterval\<close> handles, \<open>timeouts\<close> the pending
  \<open>setTimeout\<close> handles.
\<close>

record world = manager +
  sockets :: "readyState list"
  promises :: "promise list"
  intervals :: "nat list"
  timeouts :: "nat list"
  next_timer :: nat
  trace :: "effect list"

text \<open>The field initialisers, and the three assignments of the constructor.\<close>

definition new_manager :: "string option \<Rightarrow> string option \<Rightarrow> string option \<Rightarrow> world" where
  "new_manager u a t =
     \<lparr> socket = None, reconnectInterval = 10000, reconnectAttempts = 200,
       currentReconnectAttempts = 0, heartBeatInterval = None, heartBeatDuration = 3000,
       debug = False, uid = u, actid = a, susertoken = t,
       socketConnecting = False, disconnectedManually = False,
       webSocketURL = ''wss://v2api.tradesmartonline.in/NorenWSTP/'',
       onDataCallback = Undefined, onOrderCallback = Undefined,
       sockets = [], promises = [], intervals = [], timeouts = [], next_timer = 0,
       trace = [] \<rparr>"

text \<open>
  What the constructor can read of its \<open>api\<close> argument: the public properties
  \<open>uid\<close>, \<open>actid\<close> and \<open>susertoken\<close> of the object, each a string or absent.
\<close>

record api_properties =
  prop_uid :: "string option"
  prop_actid :: "string option"
  prop_susertoken :: "string option"

text \<open>
  \<open>constructor(name = "socket", api)\<close>: \<open>None\<close> is a missing api. The properties
  are stored as they are read, without a test.
\<close>

definition TradeSmartWS :: "string \<Rightarrow> api_properties option \<Rightarrow> js_error + world" where
  "TradeSmartWS name api =
     (case api of
        None \<Rightarrow> Inl (Error ''websocket required name and api'')
      | Some p \<Rightarrow>
          if name = [] then Inl (Error ''websocket required name and api'')
          else Inr (new_manager (prop_uid p) (prop_actid p) (prop_susertoken p)))"

subsection \<open>The api object of the repository\<close>

text \<open>
  The class \<open>TradeSmartAPI\<close> of \<open>TradeSmart_API.js\<close>, as far as the credentials go. Its
  fields \<open>#uid\<close>, \<open>#actid\<close> and \<open>#susertoken\<close> are private and the class has no getter
  for them under these names; the only public property of the three names is \<open>uid\<close>,
  which \<open>setSessionDetails\<close> creates by \<open>this.uid = uid\<close>.
\<close>

record TradeSmartAPI =
  private_uid :: string
  private_actid :: string
  private_susertoken :: string
  private_pwd :: string
  private_vc :: string
  private_apikey :: string
  private_totpkey :: string
  public_uid :: "string option"

text \<open>\<open>constructor(uid, pwd, vc, apikey, totpkey)\<close>, on the field initialisers.\<close>

definition new_TradeSmartAPI ::
  "string \<Rightarrow> string \<Rightarrow> string \<Rightarrow> string \<Rightarrow> string \<Rightarrow> TradeSmartAPI" where
  "new_TradeSmartAPI u pwd vc apikey totpkey =
     \<lparr> private_uid = u, private_actid = [], private_susertoken = [],
       private_pwd = pwd, private_vc = vc, private_apikey = apikey,
       private_totpkey = totpkey, public_uid = None \<rparr>"

text \<open>\<open>setSessionDetails(uid = "", susertoken = "")\<close>\<close>

definition setSessionDetails :: "string \<Rightarrow> string \<Rightarrow> TradeSmartAPI \<Rightarrow> TradeSmartAPI" where
  "setSessionDetails u t api =
     api\<lparr>public_uid := Some u, private_susertoken := t, private_actid := u\<rparr>"

text \<open>What code outside the class reads as \<open>api.uid\<close>, \<open>api.actid\<close>, \<open>api.susertoken\<close>.\<close>

definition properties_of :: "TradeSmartAPI \<Rightarrow> api_properties" where
  "properties_of api = \<lparr> prop_uid = public_uid api, prop_actid = None, prop_susertoken = None \<rparr>"

definition emit :: "effect \<Rightarrow> world \<Rightarrow> world" where
  "emit e w = w\<lparr>trace := trace w @ [e]\<rparr>"

definition readyState_of :: "world \<Rightarrow> nat \<Rightarrow> readyState" where
  "readyState_of w n = (if n < length (sockets w) then sockets w ! n else CLOSED)"

subsection \<open>Promises\<close>

text \<open>
  \<open>resolve()\<close> (\<open>ok\<close>) or \<open>reject(e)\<close> of the promise made by the \<open>connect\<close> call
  that created socket p. Only the first call settles the promise; then its \<open>finally\<close>
  callback clears \<open>#socketConnecting\<close>, and a rejection of a promise held by the
  reconnect timer reaches its \<open>catch\<close> callback. Both callbacks run as microtasks,
  before any further timer event or caller action; the model runs them at once. What
  the transport may still run before them (the close handler, when error and close are
  emitted together) neither reads the flag nor touches a promise, so only the place of
  the console line of the \<open>catch\<close> in the trace can differ.
\<close>

definition settle :: "nat \<Rightarrow> bool \<Rightarrow> world \<Rightarrow> world" where
  "settle p ok w =
     (if p < length (promises w) then
        (case promises w ! p of
           Pending c \<Rightarrow>
             (let w1 = emit (if ok then Resolved p else Rejected p)
                         (w\<lparr>promises := (promises w)[p := (if ok then Fulfilled else RejectedP)],
                            socketConnecting := False\<rparr>)
              in if \<not> ok \<and> c = ByTimer
                 then emit (ConsoleError [S ''Reconnect failed:'', Ev]) w1
                 else w1)
         | _ \<Rightarrow> w)
      else w)"

subsection \<open>Heartbeat\<close>

definition heartbeatData :: json where
  "heartbeatData = JObj [(''t'', JStr ''h'')]"

text \<open>\<open>#setHeartBeat\<close>: starts an interval and overwrites the stored handle.\<close>

definition setHeartBeat :: "world \<Rightarrow> world" where
  "setHeartBeat w =
     (let h = next_timer w
      in emit (IntervalSet h (heartBeatDuration w))
           (w\<lparr>heartBeatInterval := Some h, intervals := intervals w @ [h],
              next_timer := Suc h\<rparr>))"

text \<open>\<open>#clearHeartBeat\<close>: clears the interval whose handle is stored, if any.\<close>

definition clearHeartBeat :: "world \<Rightarrow> world" where
  "clearHeartBeat w =
     (case heartBeatInterval w of
        None \<Rightarrow> w
      | Some h \<Rightarrow>
          emit (IntervalCleared h)
            (w\<lparr>heartBeatInterval := None, intervals := removeAll h (intervals w)\<rparr>))"

text \<open>The callback of the interval.\<close>

definition heartBeatTick :: "world \<Rightarrow> world" where
  "heartBeatTick w =
     (case socket w of
        None \<Rightarrow> w
      | Some s \<Rightarrow> if readyState_of w s = OPEN then emit (Sent s heartbeatData) w else w)"

subsection \<open>connect and its handlers\<close>

text \<open>
  \<open>connect\<close>: the constructor of the socket does not throw on the fixed, well-formed
  URL, so the \<open>catch\<close> of the executor is not reached. The new socket is numbered by
  the count of sockets made before it.
\<close>

definition connect :: "caller \<Rightarrow> world \<Rightarrow> world" where
  "connect c w =
     (if socketConnecting w then w
      else
        (let s = length (sockets w)
         in emit (Created s)
              (w\<lparr>socketConnecting := True, disconnectedManually := False,
                 socket := Some s, sockets := sockets w @ [CONNECTING],
                 promises := promises w @ [Pending c]\<rparr>)))"

text \<open>
  The own properties of an object literal that \<open>JSON.stringify\<close> writes: a property
  whose value is \<open>undefined\<close> is left out.
\<close>

fun stringified :: "(string \<times> json option) list \<Rightarrow> (string \<times> json) list" where
  "stringified [] = []"
| "stringified ((k, None) # kvs) = stringified kvs"
| "stringified ((k, Some v) # kvs) = (k, v) # stringified kvs"

text \<open>The object \<open>connectData\<close> as it goes on the wire.\<close>

definition connectData :: "world \<Rightarrow> json" where
  "connectData w =
     JObj (stringified
       [(''t'', Some (JStr ''c'')), (''uid'', map_option JStr (uid w)),
        (''actid'', map_option JStr (actid w)),
        (''susertoken'', map_option JStr (susertoken w))])"

text \<open>
  \<open>socket.onopen\<close> of socket p. The handler sends on \<open>this.#socket\<close>, whatever
  socket that is now; reading \<open>send\<close> of \<open>null\<close> throws.
\<close>

definition onopen :: "nat \<Rightarrow> world \<Rightarrow> world" where
  "onopen p w =
     (let w1 = setHeartBeat (w\<lparr>currentReconnectAttempts := 0\<rparr>)
      in case socket w1 of
           None \<Rightarrow> emit (Thrown (TypeError ''Cannot read properties of null'')) w1
         | Some s \<Rightarrow>
             settle p True
               (emit (ConsoleLog [S ''websocket connected''])
                  (emit (Sent s (connectData w1)) w1)))"

definition onerror :: "nat \<Rightarrow> world \<Rightarrow> world" where
  "onerror p w = settle p False (emit (ConsoleError [S ''WebSocket Error:'', Ev]) w)"

text \<open>\<open>#attemptReconnect\<close>\<close>

definition attemptReconnect :: "world \<Rightarrow> world" where
  "attemptReconnect w =
     (if currentReconnectAttempts w < reconnectAttempts w then
        (let w1 = w\<lparr>currentReconnectAttempts := currentReconnectAttempts w + 1\<rparr>;
             w2 = emit (ConsoleLog [S ''Reconnect attempt '',
                                    N (currentReconnectAttempts w1), S ''...'']) w1;
             h = next_timer w2
         in emit (TimeoutSet h (reconnectInterval w2))
              (w2\<lparr>timeouts := timeouts w2 @ [h], next_timer := Suc h\<rparr>))
      else emit (ConsoleError [S ''Max reconnect attempts reached. Unable to reconnect.'']) w)"

definition onclose :: "nat \<Rightarrow> world \<Rightarrow> world" where
  "onclose p w =
     (let w1 = emit (ConsoleLog [S ''WebSocket Closed'']) (clearHeartBeat w);
          w2 = (if debug w1 then emit (ConsoleLog [Ev]) w1 else w1)
      in if \<not> disconnectedManually w2 then attemptReconnect w2 else w2)"

text \<open>
  \<open>data.t\<close>: reading a property of \<open>null\<close> throws; a value that is not an object
  has no property \<open>t\<close> (\<open>None\<close> is \<open>undefined\<close>).
\<close>

fun get_t :: "json \<Rightarrow> js_error + json option" where
  "get_t JNull = Inl (TypeError ''Cannot read properties of null'')"
| "get_t (JObj kvs) = Inr (map_of kvs ''t'')"
| "get_t _ = Inr None"

text \<open>\<open>[...].includes(v)\<close> for an array of strings.\<close>

fun includes_of :: "string list \<Rightarrow> json option \<Rightarrow> bool" where
  "includes_of xs (Some (JStr s)) = (s \<in> set xs)"
| "includes_of xs _ = False"

text \<open>The truth value of a callback slot in a condition.\<close>

fun truthy :: "callback \<Rightarrow> bool" where
  "truthy (Fn f) = True"
| "truthy _ = False"

text \<open>Calling the value of a callback slot: only a function can be called.\<close>

definition call :: "string \<Rightarrow> callback \<Rightarrow> json \<Rightarrow> world \<Rightarrow> world" where
  "call name cb data w =
     (case cb of
        Fn f \<Rightarrow> emit (Invoked f data) w
      | _ \<Rightarrow> emit (Thrown (TypeError (name @ '' is not a function''))) w)"

text \<open>
  \<open>socket.onmessage\<close>. The text of the frame is given by what \<open>JSON.parse\<close> makes
  of it: \<open>None\<close> when the text is not JSON, and \<open>JSON.parse\<close> throws a SyntaxError.
\<close>

definition onmessage :: "json option \<Rightarrow> world \<Rightarrow> world" where
  "onmessage parsed w =
     (case parsed of
        None \<Rightarrow> emit (Thrown (SyntaxError ''Unexpected token'')) w
      | Some data \<Rightarrow>
          (case get_t data of
             Inl e \<Rightarrow> emit (Thrown e) w
           | Inr t \<Rightarrow>
               if includes_of [''tk'', ''tf'', ''df'', ''dk''] t \<and> onDataCallback w \<noteq> Null
               then call ''this.#onDataCallback'' (onDataCallback w) data w
               else if includes_of [''om''] t \<and> truthy (onOrderCallback w)
               then call ''this.#onOrderCallback'' (onOrderCallback w) data w
               else if debug w then emit (ConsoleLog [S ''Message Recived'', J data]) w
               else w))"

subsection \<open>onData, onOrder, disconnect, subscribe\<close>

definition onData :: "callback \<Rightarrow> world \<Rightarrow> world" where
  "onData cb w = w\<lparr>onDataCallback := cb\<rparr>"

definition onOrder :: "callback \<Rightarrow> world \<Rightarrow> world" where
  "onOrder cb w = w\<lparr>onOrderCallback := cb\<rparr>"

text \<open>What \<open>close()\<close> does to the \<open>readyState\<close> of a socket.\<close>

fun closing :: "readyState \<Rightarrow> readyState" where
  "closing CLOSED = CLOSED"
| "closing _ = CLOSING"

definition disconnect :: "world \<Rightarrow> world" where
  "disconnect w =
     (case socket w of
        None \<Rightarrow> w
      | Some s \<Rightarrow>
          (let w1 = clearHeartBeat (w\<lparr>disconnectedManually := True\<rparr>);
               w2 = emit (CloseCalled s)
                      (w1\<lparr>sockets := (sockets w1)[s := closing (readyState_of w1 s)]\<rparr>)
           in w2\<lparr>socket := None\<rparr>))"

text \<open>\<open>Array.prototype.join\<close>\<close>

fun join :: "string \<Rightarrow> string list \<Rightarrow> string" where
  "join sep [] = []"
| "join sep [x] = x"
| "join sep (x # y # ys) = x @ sep @ join sep (y # ys)"

definition subString :: "instrument list \<Rightarrow> string" where
  "subString instruments = join ''#'' (map (\<lambda>i. Exchange i @ ''|'' @ Token i) instruments)"

definition subscribeData :: "instrument list \<Rightarrow> json" where
  "subscribeData instruments = JObj [(''t'', JStr ''t''), (''k'', JStr (subString instruments))]"

text \<open>
  \<open>subscribe\<close> is an \<open>async\<close> function without \<open>await\<close>: its body runs within the
  call, and \<open>Inl e\<close> is the rejection of the promise it returns. An array is truthy,
  so \<open>!instruments\<close> is false and the second test is that of the length.
\<close>

definition subscribe :: "instrument list \<Rightarrow> world \<Rightarrow> js_error + world" where
  "subscribe instruments w =
     (case socket w of
        None \<Rightarrow> Inl (Error ''WebSocket is not connected.'')
      | Some s \<Rightarrow>
          if readyState_of w s \<noteq> OPEN then Inl (Error ''WebSocket is not connected.'')
          else if length instruments = 0 then Inl (Error ''instruments invalid'')
          else Inr (emit (Sent s (subscribeData instruments)) w))"

subsection \<open>Events\<close>

datatype event =
    Connect
  | Disconnect
  | Subscribe "instrument list"
  | OnData callback
  | OnOrder callback
  | SockOpen nat
  | SockError nat
  | SockClose nat
  | SockMessage nat "json option"
  | TimeoutFired nat
  | IntervalTick nat

text \<open>
  One event at a time. The transport opens a socket that is connecting, reports an error
  on a socket that is not closed yet (the socket is closing from then on), closes a socket
  once, and delivers messages on an open socket; a timer fires while it is pending or
  running. Any other event does not happen, and leaves the record as it is.
\<close>

fun step :: "world \<Rightarrow> event \<Rightarrow> world" where
  "step w Connect = connect ByCaller w"
| "step w Disconnect = disconnect w"
| "step w (Subscribe instruments) =
     (case subscribe instruments w of Inl e \<Rightarrow> emit (Failed e) w | Inr w' \<Rightarrow> w')"
| "step w (OnData cb) = onData cb w"
| "step w (OnOrder cb) = onOrder cb w"
| "step w (SockOpen p) =
     (if readyState_of w p = CONNECTING
      then onopen p (w\<lparr>sockets := (sockets w)[p := OPEN]\<rparr>) else w)"
| "step w (SockError p) =
     (if readyState_of w p = CLOSED then w
      else onerror p (w\<lparr>sockets := (sockets w)[p := CLOSING]\<rparr>))"
| "step w (SockClose p) =
     (if readyState_of w p = CLOSED then w
      else onclose p (w\<lparr>sockets := (sockets w)[p := CLOSED]\<rparr>))"
| "step w (SockMessage p parsed) =
     (if readyState_of w p = OPEN then onmessage parsed w else w)"
| "step w (TimeoutFired h) =
     (if h \<in> set (timeouts w)
      then connect ByTimer (w\<lparr>timeouts := removeAll h (timeouts w)\<rparr>) else w)"
| "step w (IntervalTick h) =
     (if h \<in> set (intervals w) then heartBeatTick w else w)"

definition run :: "world \<Rightarrow> event list \<Rightarrow> world" where
  "run w es = foldl step w es"

text \<open>The frames sent, in order, with the socket of each.\<close>

fun frames :: "effect list \<Rightarrow> (nat \<times> json) list" where
  "frames [] = []"
| "frames (Sent s f # es) = (s, f) # frames es"
| "frames (_ # es) = frames es"

text \<open>The connection is Open: the manager holds a socket whose \<open>readyState\<close> is \<open>OPEN\<close>.\<close>

definition is_open :: "world \<Rightarrow> bool" where
  "is_open w = (case socket w of None \<Rightarrow> False | Some s \<Rightarrow> readyState_of w s = OPEN)"

text \<open>The two failures of subscribe, under the names the specification gives them.\<close>

definition NotConnected :: js_error where
  "NotConnected = Error ''WebSocket is not connected.''"

definition InvalidArgument :: js_error where
  "InvalidArgument = Error ''instruments invalid''"

subsection \<open>Concrete inputs\<close>

text \<open>A manager made from an object that has the three properties.\<close>

definition fresh :: world where
  "fresh = new_manager (Some ''FA1234'') (Some ''FA1234'') (Some ''s3ss10n'')"

text \<open>An api object of the repository, before and after \<open>setSessionDetails\<close>.\<close>

definition api_client :: TradeSmartAPI where
  "api_client = new_TradeSmartAPI ''FA1234'' ''secret'' ''VC'' ''key'' ''totp''"

definition api_session :: TradeSmartAPI where
  "api_session = setSessionDetails ''FA1234'' ''s3ss10n'' api_client"

definition opened :: world where
  "opened = run fresh [Connect, SockOpen 0]"

definition dialing :: world where
  "dialing = run fresh [Connect]"

definition nse22 :: instrument where
  "nse22 = \<lparr>Exchange = ''NSE'', Token = ''22''\<rparr>"

definition nse26 :: instrument where
  "nse26 = \<lparr>Exchange = ''NSE'', Token = ''26''\<rparr>"

subsection \<open>A transport that never opens\<close>

text \<open>
  The environment of the reconnect policy when no connection can be made: the socket the
  manager holds fails while it is connecting (the transport reports the error, then the
  close), and the pending reconnect timer fires. \<open>None\<close>: nothing is left to happen.
\<close>

definition failing_transport :: "world \<Rightarrow> event option" where
  "failing_transport w =
     (case socket w of
        None \<Rightarrow> None
      | Some s \<Rightarrow>
          if readyState_of w s = CONNECTING then Some (SockError s)
          else if readyState_of w s = CLOSING then Some (SockClose s)
          else (case timeouts w of [] \<Rightarrow> None | h # _ \<Rightarrow> Some (TimeoutFired h)))"

text \<open>At most k events of that environment.\<close>

fun drive :: "nat \<Rightarrow> world \<Rightarrow> world" where
  "drive 0 w = w"
| "drive (Suc k) w = (case failing_transport w of None \<Rightarrow> w | Some e \<Rightarrow> drive k (step w e))"

declare drive.simps [simp del]

text \<open>The connection attempts and the reconnect timers of a trace, in order.\<close>

fun attempts :: "effect list \<Rightarrow> effect list" where
  "attempts [] = []"
| "attempts (Created s # es) = Created s # attempts es"
| "attempts (TimeoutSet h d # es) = TimeoutSet h d # attempts es"
| "attempts (_ # es) = attempts es"

text \<open>The exceptions that left a handler.\<close>

fun thrown :: "effect list \<Rightarrow> js_error list" where
  "thrown [] = []"
| "thrown (Thrown e # es) = e # thrown es"
| "thrown (_ # es) = thrown es"

text \<open>
  The first connect, then j times a timer with delay d followed by the connect it
  triggers.
\<close>

definition expected_attempts :: "nat \<Rightarrow> nat \<Rightarrow> effect list" where
  "expected_attempts d j = Created 0 # concat (map (\<lambda>i. [TimeoutSet i d, Created (Suc i)]) [0..<j])"

text \<open>
  The states of the failing run. j attempts have been scheduled so far; socket j is the
  one the manager holds. \<open>phaseA\<close>: it is connecting; \<open>phaseB\<close>: its error has been
  reported; \<open>phaseC\<close>: it is closed and the next timer is pending; \<open>given_up\<close>: it is
  closed and no timer is pending.
\<close>

definition settled :: "nat \<Rightarrow> nat \<Rightarrow> nat \<Rightarrow> world \<Rightarrow> bool" where
  "settled n d j w =
     (socket w = Some j \<and> length (sockets w) = Suc j \<and> length (promises w) = Suc j
      \<and> next_timer w = currentReconnectAttempts w
      \<and> reconnectAttempts w = n \<and> reconnectInterval w = d
      \<and> \<not> disconnectedManually w \<and> heartBeatInterval w = None
      \<and> thrown (trace w) = [])"

definition phaseA :: "nat \<Rightarrow> nat \<Rightarrow> nat \<Rightarrow> world \<Rightarrow> bool" where
  "phaseA n d j w =
     (settled n d j w \<and> sockets w ! j = CONNECTING \<and> (\<exists>c. promises w ! j = Pending c)
      \<and> timeouts w = [] \<and> currentReconnectAttempts w = j \<and> socketConnecting w
      \<and> attempts (trace w) = expected_attempts d j)"

definition phaseB :: "nat \<Rightarrow> nat \<Rightarrow> nat \<Rightarrow> world \<Rightarrow> bool" where
  "phaseB n d j w =
     (settled n d j w \<and> sockets w ! j = CLOSING
      \<and> timeouts w = [] \<and> currentReconnectAttempts w = j \<and> \<not> socketConnecting w
      \<and> attempts (trace w) = expected_attempts d j)"

definition phaseC :: "nat \<Rightarrow> nat \<Rightarrow> nat \<Rightarrow> world \<Rightarrow> bool" where
  "phaseC n d j w =
     (settled n d j w \<and> sockets w ! j = CLOSED
      \<and> timeouts w = [j] \<and> currentReconnectAttempts w = Suc j \<and> \<not> socketConnecting w
      \<and> attempts (trace w) = expected_attempts d j @ [TimeoutSet j d])"

definition given_up :: "nat \<Rightarrow> nat \<Rightarrow> world \<Rightarrow> bool" where
  "given_up n d w =
     (settled n d n w \<and> sockets w ! n = CLOSED
      \<and> timeouts w = [] \<and> currentReconnectAttempts w = n \<and> \<not> socketConnecting w
      \<and> attempts (trace w) = expected_attempts d n
      \<and> ConsoleError [S ''Max reconnect attempts reached. Unable to reconnect.''] \<in> set (trace w))"

subsection \<open>The connect in flight\<close>

fun is_pending :: "promise \<Rightarrow> bool" where
  "is_pending (Pending c) = True"
| "is_pending _ = False"

text \<open>
  What the flag \<open>#socketConnecting\<close> guards: a socket that is connecting has its connect
  promise pending, and a pending promise belongs to the socket made last, with the flag
  set.
\<close>

definition in_flight :: "world \<Rightarrow> bool" where
  "in_flight w =
     (length (promises w) = length (sockets w)
      \<and> (\<forall>i < length (sockets w). sockets w ! i = CONNECTING \<longrightarrow> is_pending (promises w ! i))
      \<and> (\<forall>i < length (sockets w). is_pending (promises w ! i) \<longrightarrow>
            socketConnecting w \<and> Suc i = length (sockets w)))"

subsection \<open>The registry of the specification\<close>

text \<open>
  The specification's Subscription Registry after a sequence of subscribe calls: the keys
  of all the calls, each once.
\<close>

definition spec_registry :: "instrument list list \<Rightarrow> string list" where
  "spec_registry calls =
     remdups (concat (map (map (\<lambda>i. Exchange i @ ''|'' @ Token i)) calls))"

lemmas handler_defs =
  connect_def onopen_def onerror_def onclose_def onmessage_def attemptReconnect_def
  setHeartBeat_def clearHeartBeat_def heartBeatTick_def settle_def emit_def
  readyState_of_def connectData_def heartbeatData_def disconnect_def subscribe_def
  subscribeData_def subString_def onData_def onOrder_def call_def is_open_def

lemmas input_defs = fresh_def opened_def nse22_def nse26_def new_manager_def run_def

section \<open>subscribe\<close>

lemma frames_append: "frames (xs @ ys) = frames xs @ frames ys"
  by (induction xs rule: frames.induct) simp_all

lemma run_Cons: "run w (e # es) = run (step w e) es"
  by (simp add: run_def)

lemma run_Nil: "run w [] = w"
  by (simp add: run_def)

lemma opened_value:
  "opened = fresh\<lparr>socket := Some 0, heartBeatInterval := Some 0, sockets := [OPEN],
       promises := [Fulfilled], intervals := [0], next_timer := 1,
       trace := [Created 0, IntervalSet 0 3000, Sent 0 (connectData fresh),
                 ConsoleLog [S ''websocket connected''], Resolved 0]\<rparr>"
  by (simp add: input_defs handler_defs)

lemma dialing_value:
  "dialing = fresh\<lparr>socketConnecting := True, socket := Some 0, sockets := [CONNECTING],
       promises := [Pending ByCaller], trace := [Created 0]\<rparr>"
  by (simp add: dialing_def input_defs connect_def emit_def)

lemma opened_is_open: "socket opened = Some 0 \<and> readyState_of opened 0 = OPEN"
  by (simp add: opened_value readyState_of_def)

text \<open>
  C10. A call of subscribe on an open socket with a non-empty list sends one frame
  \<open>{"t":"t","k":...}\<close> whose k is the join with \<open>#\<close> of the \<open>Exchange|Token\<close> strings
  of the instruments of this call, in their order and with their duplicates, and changes
  no field of the manager: the result is the record it was given with that one effect
  added.
\<close>

theorem subscribe_frame_only:
  assumes "socket w = Some s" and "readyState_of w s = OPEN" and "instruments \<noteq> []"
  shows "subscribe instruments w =
           Inr (w\<lparr>trace := trace w @
                   [Sent s (JObj [(''t'', JStr ''t''),
                                  (''k'', JStr (join ''#''
                                     (map (\<lambda>i. Exchange i @ ''|'' @ Token i) instruments)))])]\<rparr>)
         \<and> manager.truncate (case subscribe instruments w of Inr w' \<Rightarrow> w' | Inl e \<Rightarrow> w)
             = manager.truncate w"
  using assms
  by (simp add: subscribe_def emit_def subscribeData_def subString_def manager.truncate_def)

theorem subscribe_frame_only_witness:
  "socket opened = Some 0 \<and> readyState_of opened 0 = OPEN \<and> [nse22, nse26, nse22] \<noteq> []
   \<and> subscribe [nse22, nse26, nse22] opened =
       Inr (opened\<lparr>trace := trace opened @
              [Sent 0 (JObj [(''t'', JStr ''t''), (''k'', JStr ''NSE|22#NSE|26#NSE|22'')])]\<rparr>)"
proof -
  have a: "socket opened = Some 0" and b: "readyState_of opened 0 = OPEN"
    using opened_is_open by simp_all
  have c: "[nse22, nse26, nse22] \<noteq> []" by simp
  show ?thesis
    using subscribe_frame_only [OF a b c] a b by (simp add: nse22_def nse26_def)
qed

text \<open>
  C5, as the specification has it: subscribe with the empty list fails with
  InvalidArgument. On a manager that is not connected the code answers NotConnected, also
  for the empty list: the test of the connection comes first.
\<close>

theorem subscribe_empty_unconnected:
  "subscribe [] fresh = Inl NotConnected \<and> subscribe [] fresh \<noteq> Inl InvalidArgument"
  by (simp add: subscribe_def fresh_def new_manager_def NotConnected_def InvalidArgument_def)

text \<open>
  C5, amended. subscribe fails with NotConnected whenever the connection is not Open,
  whatever the list, and with InvalidArgument when the connection is Open and the list is
  empty. The failure is the rejection of the promise the call returns; no frame is sent
  and no field of the manager changes.
\<close>

theorem subscribe_failures:
  "(\<not> is_open w \<longrightarrow> subscribe instruments w = Inl NotConnected
        \<and> step w (Subscribe instruments) = emit (Failed NotConnected) w)
   \<and> (is_open w \<and> instruments = [] \<longrightarrow> subscribe instruments w = Inl InvalidArgument
        \<and> step w (Subscribe instruments) = emit (Failed InvalidArgument) w)
   \<and> frames (trace (emit (Failed e) w)) = frames (trace w)
   \<and> manager.truncate (emit (Failed e) w) = manager.truncate w
   \<and> sockets (emit (Failed e) w) = sockets w"
  by (auto simp: subscribe_def is_open_def NotConnected_def InvalidArgument_def emit_def
        frames_append manager.truncate_def split: option.splits)

theorem subscribe_failures_witness:
  "\<not> is_open fresh \<and> subscribe [nse22] fresh = Inl NotConnected
   \<and> is_open opened \<and> subscribe [] opened = Inl InvalidArgument
   \<and> frames (trace (step opened (Subscribe []))) = frames (trace opened)"
proof -
  have a: "\<not> is_open fresh" by (simp add: is_open_def fresh_def new_manager_def)
  have b: "is_open opened" using opened_is_open by (simp add: is_open_def)
  show ?thesis
    using subscribe_failures [of fresh "[nse22]" InvalidArgument]
      subscribe_failures [of opened "[]" InvalidArgument] a b
    by simp
qed

section \<open>The open event\<close>

text \<open>
  What the open handler does when the transport opens the socket of the connect call in
  flight: it resets the reconnect counter to 0, starts the heartbeat timer with the
  configured period, sends exactly one frame, made of \<open>t\<close> and of those of the three
  credentials that the manager holds, and resolves the pending promise of that connect
  call (whose \<open>finally\<close> clears the in-flight flag). When the manager holds all three
  credentials the frame is \<open>{"t":"c","uid":...,"actid":...,"susertoken":...}\<close>.
\<close>

lemma open_event:
  assumes "readyState_of w p = CONNECTING" and "socket w = Some s"
    and "p < length (promises w)" and "promises w ! p = Pending c"
  shows "currentReconnectAttempts (step w (SockOpen p)) = 0
    \<and> heartBeatInterval (step w (SockOpen p)) = Some (next_timer w)
    \<and> intervals (step w (SockOpen p)) = intervals w @ [next_timer w]
    \<and> trace (step w (SockOpen p)) = trace w @
         [IntervalSet (next_timer w) (heartBeatDuration w),
          Sent s (JObj (stringified
                   [(''t'', Some (JStr ''c'')), (''uid'', map_option JStr (uid w)),
                    (''actid'', map_option JStr (actid w)),
                    (''susertoken'', map_option JStr (susertoken w))])),
          ConsoleLog [S ''websocket connected''],
          Resolved p]
    \<and> promises (step w (SockOpen p)) ! p = Fulfilled
    \<and> socketConnecting (step w (SockOpen p)) = False
    \<and> readyState_of (step w (SockOpen p)) p = OPEN"
  using assms
  by (simp add: onopen_def setHeartBeat_def settle_def emit_def connectData_def
        readyState_of_def Let_def split: if_splits)

lemma open_event_with_credentials:
  assumes "readyState_of w p = CONNECTING" and "socket w = Some s"
    and "uid w = Some u" and "actid w = Some a" and "susertoken w = Some t"
  shows "frames (trace (step w (SockOpen p))) =
           frames (trace w) @
             [(s, JObj [(''t'', JStr ''c''), (''uid'', JStr u), (''actid'', JStr a),
                        (''susertoken'', JStr t)])]"
  using assms
  by (simp add: onopen_def setHeartBeat_def settle_def emit_def connectData_def Let_def
      frames_append split: promise.splits)

text \<open>
  C8 at the api object of the repository. A \<open>TradeSmartAPI\<close> has no public property
  \<open>actid\<close> or \<open>susertoken\<close>, and a public \<open>uid\<close> only after \<open>setSessionDetails\<close>;
  the constructor of the manager stores what it reads, \<open>undefined\<close>. So the frame sent
  on the open event is \<open>{"t":"c"}\<close> for a new api object and \<open>{"t":"c","uid":"FA1234"}\<close>
  after \<open>setSessionDetails\<close>: it has not the shape of the authentication frame and
  carries no session token, although the api object holds one.
\<close>

theorem auth_frame_without_credentials:
  "TradeSmartWS ''socket'' (Some (properties_of api_client)) = Inr (new_manager None None None)
   \<and> frames (trace (run (new_manager None None None) [Connect, SockOpen 0])) =
       [(0, JObj [(''t'', JStr ''c'')])]
   \<and> private_susertoken api_session = ''s3ss10n''
   \<and> TradeSmartWS ''socket'' (Some (properties_of api_session)) =
       Inr (new_manager (Some ''FA1234'') None None)
   \<and> frames (trace (run (new_manager (Some ''FA1234'') None None) [Connect, SockOpen 0])) =
       [(0, JObj [(''t'', JStr ''c''), (''uid'', JStr ''FA1234'')])]"
  by (simp add: TradeSmartWS_def properties_of_def api_client_def api_session_def
      new_TradeSmartAPI_def setSessionDetails_def run_def new_manager_def handler_defs)

section \<open>Inbound frames\<close>

text \<open>
  C3, as the specification has it: a frame that does not decode is discarded and no
  error leaves the message handler. In the code \<open>JSON.parse\<close> is called outside any
  \<open>try\<close>, and its SyntaxError leaves \<open>onmessage\<close>.
\<close>

theorem malformed_frame_throws:
  "readyState_of opened 0 = OPEN
   \<and> trace (step opened (SockMessage 0 None)) =
       trace opened @ [Thrown (SyntaxError ''Unexpected token'')]"
  by (simp add: opened_value readyState_of_def onmessage_def emit_def)

text \<open>
  C3, amended. For a frame on an open socket whose text does not decode, the handler
  throws the SyntaxError of the decoder to the transport that called it, before it
  invokes a callback or logs anything; it changes no field of the manager and does not
  close the socket, whose \<open>readyState\<close> stays \<open>OPEN\<close>.
\<close>

theorem malformed_frame:
  assumes "readyState_of w p = OPEN"
  shows "trace (step w (SockMessage p None)) = trace w @ [Thrown (SyntaxError ''Unexpected token'')]
    \<and> manager.truncate (step w (SockMessage p None)) = manager.truncate w
    \<and> sockets (step w (SockMessage p None)) = sockets w
    \<and> readyState_of (step w (SockMessage p None)) p = OPEN"
  using assms
  by (simp add: onmessage_def emit_def readyState_of_def manager.truncate_def split: if_splits)

theorem malformed_frame_witness:
  "readyState_of opened 0 = OPEN
   \<and> manager.truncate (step opened (SockMessage 0 None)) = manager.truncate opened
   \<and> readyState_of (step opened (SockMessage 0 None)) 0 = OPEN"
proof -
  have a: "readyState_of opened 0 = OPEN" using opened_is_open by simp
  from malformed_frame [OF a] a show ?thesis by simp
qed

text \<open>
  Routing of a decoded object when both slots hold what the tests of the handler
  expect: a function, or \<open>null\<close> for the data slot and anything that is not a function
  for the order slot.
\<close>

lemma routing_registered:
  "onmessage (Some (JObj kvs)) w =
     (if includes_of [''tk'', ''tf'', ''df'', ''dk''] (map_of kvs ''t'') \<and> onDataCallback w \<noteq> Null
      then (case onDataCallback w of
              Fn f \<Rightarrow> emit (Invoked f (JObj kvs)) w
            | _ \<Rightarrow> emit (Thrown (TypeError ''this.#onDataCallback is not a function'')) w)
      else if includes_of [''om''] (map_of kvs ''t'') \<and> truthy (onOrderCallback w)
      then (case onOrderCallback w of
              Fn f \<Rightarrow> emit (Invoked f (JObj kvs)) w
            | _ \<Rightarrow> w)
      else if debug w then emit (ConsoleLog [S ''Message Recived'', J (JObj kvs)]) w
      else w)"
  by (cases "onOrderCallback w") (simp_all add: onmessage_def call_def split: callback.splits)

text \<open>
  C4 at a manager on which \<open>onData\<close> was never called: the slot holds \<open>undefined\<close>,
  the test \<open>!== null\<close> lets it pass, and the market-data frame \<open>{"t":"tk","lp":"101.5"}\<close>
  makes the handler call \<open>undefined\<close>: a TypeError leaves the handler. The order branch
  tests the slot for truth, and an order frame with no order callback is dropped.
\<close>

theorem market_data_without_callback:
  "onDataCallback opened = Undefined \<and> onOrderCallback opened = Undefined
   \<and> step opened (SockMessage 0 (Some (JObj [(''t'', JStr ''tk''), (''lp'', JStr ''101.5'')]))) =
       emit (Thrown (TypeError ''this.#onDataCallback is not a function'')) opened
   \<and> step opened (SockMessage 0 (Some (JObj [(''t'', JStr ''om'')]))) = opened"
  by (simp add: opened_value readyState_of_def onmessage_def call_def fresh_def new_manager_def)

section \<open>The subscriptions of a manager\<close>

text \<open>
  C1, as the specification has it: every subscribe call sends the join of the whole
  registry, and the registry is sent again after a reconnect. The code keeps no registry.
  After subscribe of NSE|22 and then of NSE|26 the second frame carries \<open>NSE|26\<close> alone,
  which is not the join of the registry {NSE|22, NSE|26} in either order; and after
  subscribe of NSE|22, an unexpected close and the reconnect, the only frame sent on the new
  socket is the authentication frame.
\<close>

theorem no_registry:
  "frames (trace (run opened [Subscribe [nse22], Subscribe [nse26] ])) =
     frames (trace opened) @
       [(0, JObj [(''t'', JStr ''t''), (''k'', JStr ''NSE|22'')]),
        (0, JObj [(''t'', JStr ''t''), (''k'', JStr ''NSE|26'')])]
   \<and> spec_registry [ [nse22], [nse26] ] = [''NSE|22'', ''NSE|26'']
   \<and> ''NSE|26'' \<noteq> join ''#'' [''NSE|22'', ''NSE|26'']
   \<and> ''NSE|26'' \<noteq> join ''#'' [''NSE|26'', ''NSE|22'']
   \<and> frames (trace (run opened [Subscribe [nse22], SockClose 0, TimeoutFired 1, SockOpen 1])) =
       frames (trace opened) @
         [(0, JObj [(''t'', JStr ''t''), (''k'', JStr ''NSE|22'')]),
          (1, connectData fresh)]"
  by (simp add: opened_value run_Cons run_Nil handler_defs spec_registry_def nse22_def nse26_def
      fresh_def new_manager_def)

lemma run_subscribes:
  assumes "socket w = Some s" and "readyState_of w s = OPEN" and "\<forall>xs \<in> set calls. xs \<noteq> []"
  shows "run w (map Subscribe calls) =
           w\<lparr>trace := trace w @ map (\<lambda>xs. Sent s (subscribeData xs)) calls\<rparr>"
  using assms
proof (induction calls arbitrary: w)
  case Nil
  then show ?case by (simp add: run_Nil)
next
  case (Cons c calls)
  let ?w = "emit (Sent s (subscribeData c)) w"
  have st: "subscribe c w = Inr ?w"
    using Cons.prems by (simp add: subscribe_def)
  have "socket ?w = Some s" and "readyState_of ?w s = OPEN"
    using Cons.prems by (simp_all add: emit_def readyState_of_def split: if_splits)
  moreover have "\<forall>xs \<in> set calls. xs \<noteq> []"
    using Cons.prems by simp
  ultimately have "run ?w (map Subscribe calls) =
      ?w\<lparr>trace := trace ?w @ map (\<lambda>xs. Sent s (subscribeData xs)) calls\<rparr>"
    by (rule Cons.IH)
  then show ?case by (simp add: run_Cons st emit_def)
qed

lemma open_sends_auth_only:
  "frames (trace (step v (SockOpen p))) =
     frames (trace v) @
       (if readyState_of v p = CONNECTING
        then (case socket v of None \<Rightarrow> [] | Some c \<Rightarrow> [(c, connectData v)])
        else [])"
  by (simp add: onopen_def setHeartBeat_def settle_def emit_def connectData_def Let_def
      frames_append split: option.splits promise.splits)

text \<open>
  C1, amended. The manager keeps no registry. For every sequence of subscribe calls made
  while Open, each with a non-empty list, each call sends one frame whose key string is
  the join with \<open>#\<close> of the keys of that call alone, in the order of the call and with its
  duplicates, and changes nothing else. A transport-open event, the one after a reconnect
  included, sends the authentication frame and no subscribe frame.
\<close>

theorem subscribe_calls:
  assumes "socket w = Some s" and "readyState_of w s = OPEN" and "\<forall>xs \<in> set calls. xs \<noteq> []"
  shows "run w (map Subscribe calls) =
           w\<lparr>trace := trace w @
               map (\<lambda>xs. Sent s (JObj [(''t'', JStr ''t''),
                      (''k'', JStr (join ''#'' (map (\<lambda>i. Exchange i @ ''|'' @ Token i) xs)))]))
                 calls\<rparr>
         \<and> frames (trace (step v (SockOpen p))) =
             frames (trace v) @
               (if readyState_of v p = CONNECTING
                then (case socket v of
                        None \<Rightarrow> []
                      | Some c \<Rightarrow>
                          [(c, JObj (stringified
                                 [(''t'', Some (JStr ''c'')),
                                  (''uid'', map_option JStr (uid v)),
                                  (''actid'', map_option JStr (actid v)),
                                  (''susertoken'', map_option JStr (susertoken v))]))])
                else [])"
  using run_subscribes [OF assms] open_sends_auth_only [of v p]
  by (simp add: subscribeData_def subString_def connectData_def split: option.splits)

theorem subscribe_calls_witness:
  "socket opened = Some 0 \<and> readyState_of opened 0 = OPEN
   \<and> trace (run opened (map Subscribe [ [nse22], [nse26, nse22], [nse22] ])) =
       trace opened @
         [Sent 0 (JObj [(''t'', JStr ''t''), (''k'', JStr ''NSE|22'')]),
          Sent 0 (JObj [(''t'', JStr ''t''), (''k'', JStr ''NSE|26#NSE|22'')]),
          Sent 0 (JObj [(''t'', JStr ''t''), (''k'', JStr ''NSE|22'')])]
   \<and> readyState_of dialing 0 = CONNECTING
   \<and> frames (trace (step dialing (SockOpen 0))) =
       [(0, JObj [(''t'', JStr ''c''), (''uid'', JStr ''FA1234''),
                  (''actid'', JStr ''FA1234''), (''susertoken'', JStr ''s3ss10n'')])]"
proof -
  have a: "socket opened = Some 0" and b: "readyState_of opened 0 = OPEN"
    using opened_is_open by simp_all
  have c: "\<forall>xs \<in> set [ [nse22], [nse26, nse22], [nse22] ]. xs \<noteq> []" by simp
  have d: "readyState_of dialing 0 = CONNECTING" "socket dialing = Some 0"
    "trace dialing = [Created 0]" "uid dialing = Some ''FA1234''"
    "actid dialing = Some ''FA1234''" "susertoken dialing = Some ''s3ss10n''"
    by (simp_all add: dialing_value readyState_of_def) (simp_all add: fresh_def new_manager_def)
  from subscribe_calls [OF a b c, of dialing 0] a b d show ?thesis
    by (simp add: nse22_def nse26_def)
qed

section \<open>disconnect and the reconnect timer\<close>

text \<open>
  The half of C2 that the code keeps: a disconnect while the first connect is in flight
  closes the socket; the transport reports the error and the close, the promise is
  rejected, no timer is set and no second socket is made.
\<close>

lemma disconnect_while_connecting:
  "attempts (trace (run dialing [Disconnect, SockError 0, SockClose 0])) = [Created 0]
   \<and> timeouts (run dialing [Disconnect, SockError 0, SockClose 0]) = []
   \<and> intervals (run dialing [Disconnect, SockError 0, SockClose 0]) = []
   \<and> frames (trace (run dialing [Disconnect, SockError 0, SockClose 0])) = []"
  by (simp add: dialing_value run_Cons run_Nil handler_defs fresh_def new_manager_def)

text \<open>
  C2 during the reconnect backoff: the connection was open and dropped, so the reconnect
  timer 1 is pending; then \<open>disconnect()\<close> is called. It sets the manual flag and drops
  the closed socket, but does not cancel the timer. The timer fires, \<open>connect\<close> clears
  the manual flag and makes socket 1; when it opens, a heartbeat timer starts and its
  first tick sends a heartbeat. The close handler does test the manual flag before it
  schedules a reconnect; the timer callback tests nothing.
\<close>

theorem reconnect_after_disconnect:
  "timeouts (run opened [SockClose 0, Disconnect]) = [1]
   \<and> disconnectedManually (run opened [SockClose 0, Disconnect])
   \<and> socket (run opened [SockClose 0, Disconnect]) = None
   \<and> trace (run opened [SockClose 0, Disconnect, TimeoutFired 1, SockOpen 1, IntervalTick 2]) =
       trace (run opened [SockClose 0, Disconnect]) @
         [Created 1, IntervalSet 2 3000, Sent 1 (connectData fresh),
          ConsoleLog [S ''websocket connected''], Resolved 1,
          Sent 1 (JObj [(''t'', JStr ''h'')])]"
  by (simp add: opened_value run_Cons run_Nil handler_defs fresh_def new_manager_def)

section \<open>The reconnect policy against a transport that never opens\<close>

lemma attempts_append: "attempts (xs @ ys) = attempts xs @ attempts ys"
  by (induction xs rule: attempts.induct) simp_all

lemma thrown_append: "thrown (xs @ ys) = thrown xs @ thrown ys"
  by (induction xs rule: thrown.induct) simp_all

lemma expected_Suc: "expected_attempts d (Suc j) = expected_attempts d j @ [TimeoutSet j d, Created (Suc j)]"
  by (simp add: expected_attempts_def)

lemma stepA:
  assumes "phaseA n d j w"
  shows "failing_transport w = Some (SockError j) \<and> phaseB n d j (step w (SockError j))"
  using assms
  by (auto simp: phaseA_def phaseB_def settled_def failing_transport_def readyState_of_def
      onerror_def settle_def emit_def attempts_append thrown_append Let_def split: if_splits)

lemma stepB:
  assumes "phaseB n d j w" and "j < n"
  shows "failing_transport w = Some (SockClose j) \<and> phaseC n d j (step w (SockClose j))"
  using assms
  by (auto simp: phaseB_def phaseC_def settled_def failing_transport_def readyState_of_def
      onclose_def clearHeartBeat_def attemptReconnect_def emit_def attempts_append thrown_append Let_def)

lemma stepB_last:
  assumes "phaseB n d n w"
  shows "failing_transport w = Some (SockClose n) \<and> given_up n d (step w (SockClose n))"
  using assms
  by (auto simp: phaseB_def given_up_def settled_def failing_transport_def readyState_of_def
      onclose_def clearHeartBeat_def attemptReconnect_def emit_def attempts_append thrown_append Let_def)

lemma stepC:
  assumes "phaseC n d j w"
  shows "failing_transport w = Some (TimeoutFired j) \<and> phaseA n d (Suc j) (step w (TimeoutFired j))"
  using assms
  by (auto simp: phaseC_def phaseA_def settled_def failing_transport_def readyState_of_def
      connect_def emit_def attempts_append thrown_append Let_def nth_append expected_Suc)

lemma given_up_quiet:
  assumes "given_up n d w"
  shows "failing_transport w = None"
  using assms
  by (auto simp: given_up_def settled_def failing_transport_def readyState_of_def)


lemma drive_quiet: "failing_transport w = None \<Longrightarrow> drive k w = w"
  by (cases k) (simp_all add: drive.simps)

lemma drive_add: "drive (a + b) w = drive b (drive a w)"
  by (induction a arbitrary: w) (simp_all add: drive.simps drive_quiet split: option.splits)

lemma drive_cycle:
  assumes "phaseA n d j w" and "j < n"
  shows "phaseA n d (Suc j) (drive 3 w)"
proof -
  from stepA [OF assms(1)] have a: "failing_transport w = Some (SockError j)"
    and b: "phaseB n d j (step w (SockError j))" by simp_all
  from stepB [OF b assms(2)]
  have c: "failing_transport (step w (SockError j)) = Some (SockClose j)"
    and d: "phaseC n d j (step (step w (SockError j)) (SockClose j))" by simp_all
  from stepC [OF d]
  have e: "failing_transport (step (step w (SockError j)) (SockClose j)) = Some (TimeoutFired j)"
    and f: "phaseA n d (Suc j) (step (step (step w (SockError j)) (SockClose j)) (TimeoutFired j))"
    by simp_all
  show ?thesis using a c e f by (simp add: numeral_3_eq_3 drive.simps)
qed

lemma drive_last:
  assumes "phaseA n d n w"
  shows "given_up n d (drive 2 w)"
proof -
  from stepA [OF assms] have a: "failing_transport w = Some (SockError n)"
    and b: "phaseB n d n (step w (SockError n))" by simp_all
  from stepB_last [OF b]
  have c: "failing_transport (step w (SockError n)) = Some (SockClose n)"
    and d: "given_up n d (step (step w (SockError n)) (SockClose n))" by simp_all
  show ?thesis using a c d by (simp add: numeral_2_eq_2 drive.simps)
qed

lemma drive_all:
  assumes "phaseA n d j w" and "j \<le> n"
  shows "given_up n d (drive (3 * (n - j) + 2) w)"
  using assms
proof (induction "n - j" arbitrary: j w)
  case 0
  then have jn: "j = n" by simp
  have "given_up n d (drive 2 w)"
    using drive_last "0.prems"(1) unfolding jn .
  moreover have "3 * (n - j) + 2 = 2" using jn by simp
  ultimately show ?case by (simp only:)
next
  case (Suc m)
  then have lt: "j < n" and m: "m = n - Suc j" by simp_all
  have next_phase: "phaseA n d (Suc j) (drive 3 w)"
    using drive_cycle [OF Suc.prems(1) lt] .
  have "given_up n d (drive (3 * (n - Suc j) + 2) (drive 3 w))"
    using Suc.hyps(1) [OF m next_phase] lt by simp
  moreover have "3 * (n - j) + 2 = 3 + (3 * (n - Suc j) + 2)"
    using lt by simp
  ultimately show ?case by (simp only: drive_add)
qed

lemma first_attempt:
  "phaseA n 10000 0 (connect ByCaller ((new_manager u a t)\<lparr>reconnectAttempts := n\<rparr>))"
  by (simp add: phaseA_def settled_def new_manager_def connect_def emit_def expected_attempts_def)

text \<open>
  C6. A new manager whose maximum is n, with the counter at 0, calls connect, and the
  transport never opens. Then, whatever the number of events allowed beyond 3 n + 2, the
  connection attempts and timers of the run are: the first connect, then exactly n times
  a reconnect timer with the fixed delay of 10000 ms followed by the connect it triggers.
  At the end the counter is n, no timer is pending and nothing is left to happen, the
  report that the maximum is reached has been made, and no exception has left a
  handler.
\<close>

theorem always_failing_transport:
  "attempts (trace (drive (3 * n + 2 + m) (step ((new_manager u a t)\<lparr>reconnectAttempts := n\<rparr>) Connect)))
     = Created 0 # concat (map (\<lambda>i. [TimeoutSet i 10000, Created (Suc i)]) [0..<n])
   \<and> currentReconnectAttempts (drive (3 * n + 2 + m) (step ((new_manager u a t)\<lparr>reconnectAttempts := n\<rparr>) Connect)) = n
   \<and> timeouts (drive (3 * n + 2 + m) (step ((new_manager u a t)\<lparr>reconnectAttempts := n\<rparr>) Connect)) = []
   \<and> failing_transport (drive (3 * n + 2 + m) (step ((new_manager u a t)\<lparr>reconnectAttempts := n\<rparr>) Connect)) = None
   \<and> thrown (trace (drive (3 * n + 2 + m) (step ((new_manager u a t)\<lparr>reconnectAttempts := n\<rparr>) Connect))) = []
   \<and> ConsoleError [S ''Max reconnect attempts reached. Unable to reconnect.'']
       \<in> set (trace (drive (3 * n + 2 + m) (step ((new_manager u a t)\<lparr>reconnectAttempts := n\<rparr>) Connect)))"
proof -
  define w where "w = connect ByCaller ((new_manager u a t)\<lparr>reconnectAttempts := n\<rparr>)"
  define v where "v = drive (3 * n + 2) w"
  have "phaseA n 10000 0 w" unfolding w_def by (rule first_attempt)
  from drive_all [OF this] have g: "given_up n 10000 v" by (simp add: v_def)
  have q: "drive (3 * n + 2 + m) w = v"
  proof -
    have "drive (3 * n + 2 + m) w = drive m v"
      unfolding v_def by (rule drive_add)
    also have "drive m v = v"
      by (rule drive_quiet [OF given_up_quiet [OF g] ])
    finally show ?thesis .
  qed
  from g given_up_quiet [OF g] have
    "attempts (trace v) = Created 0 # concat (map (\<lambda>i. [TimeoutSet i 10000, Created (Suc i)]) [0..<n])
     \<and> currentReconnectAttempts v = n \<and> timeouts v = [] \<and> failing_transport v = None
     \<and> thrown (trace v) = []
     \<and> ConsoleError [S ''Max reconnect attempts reached. Unable to reconnect.''] \<in> set (trace v)"
    by (simp add: given_up_def settled_def expected_attempts_def)
  moreover have "step ((new_manager u a t)\<lparr>reconnectAttempts := n\<rparr>) Connect = w"
    by (simp add: w_def)
  ultimately show ?thesis by (simp only: q)
qed

theorem always_failing_transport_witness:
  "attempts (trace (drive 8 (step (fresh\<lparr>reconnectAttempts := 2\<rparr>) Connect)))
     = [Created 0, TimeoutSet 0 10000, Created 1, TimeoutSet 1 10000, Created 2]
   \<and> currentReconnectAttempts (drive 8 (step (fresh\<lparr>reconnectAttempts := 2\<rparr>) Connect)) = 2
   \<and> timeouts (drive 20 (step (fresh\<lparr>reconnectAttempts := 2\<rparr>) Connect)) = []
   \<and> attempts (trace (drive 20 (step (fresh\<lparr>reconnectAttempts := 2\<rparr>) Connect)))
     = [Created 0, TimeoutSet 0 10000, Created 1, TimeoutSet 1 10000, Created 2]"
  using always_failing_transport [of 2 0 "Some ''FA1234''" "Some ''FA1234''" "Some ''s3ss10n''"]
    always_failing_transport [of 2 12 "Some ''FA1234''" "Some ''FA1234''" "Some ''s3ss10n''"]
  by (simp add: fresh_def upt_rec)


section \<open>The heartbeat\<close>

text \<open>
  C7, as the specification has it: while Open exactly one heartbeat is sent per period.
  After a second \<open>connect()\<close> on the open manager has opened its socket, two interval
  timers run, the one of the first open event was never cleared, and each period both
  of them send a heartbeat on the open socket.
\<close>

theorem two_heartbeats:
  "intervals (run opened [Connect, SockOpen 1]) = [0, 1]
  \<and> is_open (run opened [Connect, SockOpen 1])
  \<and> trace (run opened [Connect, SockOpen 1, IntervalTick 0, IntervalTick 1]) =
     trace (run opened [Connect, SockOpen 1]) @
       [Sent 1 (JObj [(''t'', JStr ''h'')]), Sent 1 (JObj [(''t'', JStr ''h'')])]"
  by (simp add: opened_value run_Cons run_Nil handler_defs fresh_def new_manager_def)

text \<open>
  C7, amended. Every transport-open event starts one heartbeat timer with the configured
  period and stores its handle. Each tick of a running timer sends exactly one frame
  \<open>{"t":"h"}\<close> when the socket the manager holds is \<open>OPEN\<close>, and nothing when the
  manager holds no socket or one that is connecting, closing or closed; a cleared timer
  does not tick. Every close event and every \<open>disconnect()\<close> on a manager that holds a
  socket clears the timer whose handle is stored.
\<close>

theorem heartbeat_timer:
  "(h \<in> set (intervals w) \<and> is_open w \<longrightarrow>
      (\<exists>s. socket w = Some s \<and> readyState_of w s = OPEN
           \<and> step w (IntervalTick h) = w\<lparr>trace := trace w @ [Sent s (JObj [(''t'', JStr ''h'')])]\<rparr>))
   \<and> (\<not> is_open w \<longrightarrow> step w (IntervalTick h) = w)
   \<and> (h \<notin> set (intervals w) \<longrightarrow> step w (IntervalTick h) = w)
   \<and> (readyState_of w p = CONNECTING \<longrightarrow>
        intervals (step w (SockOpen p)) = intervals w @ [next_timer w]
        \<and> heartBeatInterval (step w (SockOpen p)) = Some (next_timer w)
        \<and> IntervalSet (next_timer w) (heartBeatDuration w) \<in> set (trace (step w (SockOpen p))))
   \<and> (readyState_of w p \<noteq> CLOSED \<and> heartBeatInterval w = Some h \<longrightarrow>
        h \<notin> set (intervals (step w (SockClose p)))
        \<and> heartBeatInterval (step w (SockClose p)) = None)
   \<and> (socket w \<noteq> None \<and> heartBeatInterval w = Some h \<longrightarrow>
        h \<notin> set (intervals (step w Disconnect))
        \<and> heartBeatInterval (step w Disconnect) = None)"
proof -
  have tick: "h \<in> set (intervals w) \<and> is_open w \<longrightarrow>
      (\<exists>s. socket w = Some s \<and> readyState_of w s = OPEN
           \<and> step w (IntervalTick h) = w\<lparr>trace := trace w @ [Sent s (JObj [(''t'', JStr ''h'')])]\<rparr>)"
    by (auto simp: is_open_def heartBeatTick_def emit_def heartbeatData_def split: option.splits)
  have idle: "\<not> is_open w \<longrightarrow> step w (IntervalTick h) = w"
    by (auto simp: is_open_def heartBeatTick_def split: option.splits)
  have cancelled: "h \<notin> set (intervals w) \<longrightarrow> step w (IntervalTick h) = w"
    by simp
  have started: "readyState_of w p = CONNECTING \<longrightarrow>
        intervals (step w (SockOpen p)) = intervals w @ [next_timer w]
        \<and> heartBeatInterval (step w (SockOpen p)) = Some (next_timer w)
        \<and> IntervalSet (next_timer w) (heartBeatDuration w) \<in> set (trace (step w (SockOpen p)))"
    by (auto simp: onopen_def setHeartBeat_def settle_def emit_def Let_def
        split: option.splits promise.splits)
  have closed: "readyState_of w p \<noteq> CLOSED \<and> heartBeatInterval w = Some h \<longrightarrow>
        h \<notin> set (intervals (step w (SockClose p)))
        \<and> heartBeatInterval (step w (SockClose p)) = None"
    by (auto simp: onclose_def clearHeartBeat_def attemptReconnect_def emit_def Let_def)
  have manual: "socket w \<noteq> None \<and> heartBeatInterval w = Some h \<longrightarrow>
        h \<notin> set (intervals (step w Disconnect))
        \<and> heartBeatInterval (step w Disconnect) = None"
    by (auto simp: disconnect_def clearHeartBeat_def emit_def Let_def)
  from tick idle cancelled started closed manual show ?thesis by blast
qed

theorem heartbeat_timer_witness:
  "0 \<in> set (intervals opened) \<and> is_open opened
   \<and> step opened (IntervalTick 0) = opened\<lparr>trace := trace opened @ [Sent 0 (JObj [(''t'', JStr ''h'')])]\<rparr>
   \<and> \<not> is_open dialing \<and> step dialing (IntervalTick 0) = dialing
   \<and> readyState_of dialing 0 = CONNECTING \<and> intervals (step dialing (SockOpen 0)) = [0]
   \<and> readyState_of opened 0 \<noteq> CLOSED \<and> heartBeatInterval opened = Some 0
   \<and> intervals (step opened (SockClose 0)) = []
   \<and> socket opened \<noteq> None \<and> intervals (step opened Disconnect) = []
   \<and> step (step opened Disconnect) (IntervalTick 0) = step opened Disconnect"
proof -
  have a: "0 \<in> set (intervals opened)" "is_open opened" "socket opened = Some 0"
    "readyState_of opened 0 \<noteq> CLOSED" "heartBeatInterval opened = Some 0" "socket opened \<noteq> None"
    "intervals opened = [0]"
    by (simp_all add: opened_value is_open_def readyState_of_def)
  have b: "\<not> is_open dialing" "readyState_of dialing 0 = CONNECTING" "intervals dialing = []"
    "next_timer dialing = 0"
    by (simp_all add: dialing_value is_open_def readyState_of_def fresh_def new_manager_def)
  have c: "intervals (step opened (SockClose 0)) = []"
    by (simp add: opened_value readyState_of_def onclose_def clearHeartBeat_def
        attemptReconnect_def emit_def Let_def fresh_def new_manager_def)
  have d: "intervals (step opened Disconnect) = []"
    by (simp add: opened_value disconnect_def clearHeartBeat_def emit_def Let_def)
  show ?thesis
    using heartbeat_timer [of 0 opened 0] heartbeat_timer [of 0 dialing 0]
      heartbeat_timer [of 0 "step opened Disconnect" 0] a b c d
    by simp
qed


section \<open>One connect in flight\<close>

lemma in_flight_new: "in_flight (new_manager u a t)"
  by (simp add: in_flight_def new_manager_def)

lemma in_flight_connect: "in_flight w \<Longrightarrow> in_flight (connect c w)"
  by (auto simp: in_flight_def connect_def emit_def nth_append less_Suc_eq Let_def)

lemma in_flight_env:
  assumes "in_flight w"
  shows "in_flight (w\<lparr>timeouts := ts\<rparr>)" "in_flight (emit e w)"
    "in_flight (clearHeartBeat w)" "in_flight (setHeartBeat w)" "in_flight (attemptReconnect w)"
    "in_flight (w\<lparr>currentReconnectAttempts := k\<rparr>)" "in_flight (w\<lparr>disconnectedManually := b\<rparr>)"
    "in_flight (w\<lparr>socket := so\<rparr>)" "in_flight (w\<lparr>onDataCallback := cb\<rparr>)"
    "in_flight (w\<lparr>onOrderCallback := cb\<rparr>)"
  using assms
  by (simp_all add: in_flight_def emit_def clearHeartBeat_def setHeartBeat_def
      attemptReconnect_def Let_def split: option.splits)

lemma in_flight_leave:
  assumes "in_flight w" and "r \<noteq> CONNECTING"
  shows "in_flight (w\<lparr>sockets := (sockets w)[p := r]\<rparr>)"
proof -
  have "sockets w ! i = CONNECTING"
    if "(sockets w)[p := r] ! i = CONNECTING" "i < length (sockets w)" for i
    using that assms(2) by (cases "i = p") simp_all
  then show ?thesis using assms(1) by (auto simp: in_flight_def)
qed

lemma settle_sockets: "sockets (settle p ok w) = sockets w"
  by (simp add: settle_def emit_def Let_def split: promise.splits)

lemma settle_length: "length (promises (settle p ok w)) = length (promises w)"
  by (simp add: settle_def emit_def Let_def split: promise.splits)

lemma settle_other: "i \<noteq> p \<Longrightarrow> promises (settle p ok w) ! i = promises w ! i"
  by (simp add: settle_def emit_def Let_def split: promise.splits)

lemma settle_self: "p < length (promises w) \<Longrightarrow> \<not> is_pending (promises (settle p ok w) ! p)"
  by (simp add: settle_def emit_def Let_def split: promise.splits)

lemma settle_idle:
  "\<not> (p < length (promises w) \<and> is_pending (promises w ! p)) \<Longrightarrow> settle p ok w = w"
  by (auto simp: settle_def split: promise.splits)

lemma in_flight_settle:
  assumes inv: "in_flight w" and np: "readyState_of w p \<noteq> CONNECTING"
  shows "in_flight (settle p ok w)"
proof (cases "p < length (promises w) \<and> is_pending (promises w ! p)")
  case False
  then show ?thesis using inv by (simp add: settle_idle)
next
  case True
  have len: "length (promises w) = length (sockets w)" using inv by (simp add: in_flight_def)
  have only: "i = p" if "i < length (sockets w)" "is_pending (promises w ! i)" for i
  proof -
    from inv that have "Suc i = length (sockets w)" by (simp add: in_flight_def)
    moreover from inv True len have "Suc p = length (sockets w)" by (simp add: in_flight_def)
    ultimately show ?thesis by simp
  qed
  have nc: "sockets w ! i \<noteq> CONNECTING" if "i < length (sockets w)" for i
  proof
    assume c: "sockets w ! i = CONNECTING"
    with inv that have "is_pending (promises w ! i)" by (simp add: in_flight_def)
    with that have "i = p" by (rule only)
    with c that np show False by (simp add: readyState_of_def)
  qed
  have after: "\<not> is_pending (promises (settle p ok w) ! i)" if "i < length (sockets w)" for i
  proof (cases "i = p")
    case True
    with that len show ?thesis by (simp add: settle_self)
  next
    case False
    with that only show ?thesis by (auto simp: settle_other)
  qed
  show ?thesis
    unfolding in_flight_def settle_sockets settle_length using len nc after by simp
qed

lemma closing_left: "closing r \<noteq> CONNECTING"
  by (cases r) simp_all

lemma readyState_of_env:
  "readyState_of (emit e w) = readyState_of w"
  "readyState_of (setHeartBeat w) = readyState_of w"
  "readyState_of (w\<lparr>currentReconnectAttempts := k\<rparr>) = readyState_of w"
  by (simp_all add: readyState_of_def emit_def setHeartBeat_def Let_def fun_eq_iff)

lemma readyState_of_update:
  "readyState_of (w\<lparr>sockets := (sockets w)[p := r]\<rparr>) p = (if p < length (sockets w) then r else CLOSED)"
  by (simp add: readyState_of_def)

lemma in_flight_step: "in_flight w \<Longrightarrow> in_flight (step w e)"
proof (cases e)
  case Connect
  assume "in_flight w" then show ?thesis using Connect by (simp add: in_flight_connect)
next
  case Disconnect
  assume a: "in_flight w"
  show ?thesis
  proof (cases "socket w")
    case None then show ?thesis using a Disconnect by (simp add: disconnect_def)
  next
    case (Some s)
    show ?thesis using a Disconnect Some
      by (simp add: disconnect_def Let_def in_flight_env in_flight_leave closing_left)
  qed
next
  case (Subscribe x)
  assume "in_flight w" then show ?thesis using Subscribe
    by (simp add: subscribe_def in_flight_env split: option.splits)
next
  case (OnData x)
  assume "in_flight w" then show ?thesis using OnData by (simp add: onData_def in_flight_env)
next
  case (OnOrder x)
  assume "in_flight w" then show ?thesis using OnOrder by (simp add: onOrder_def in_flight_env)
next
  case (SockOpen p)
  assume a: "in_flight w"
  have "in_flight (onopen p (w\<lparr>sockets := (sockets w)[p := OPEN]\<rparr>))"
    using in_flight_leave [OF a, of OPEN p]
    by (simp add: onopen_def Let_def in_flight_env in_flight_settle readyState_of_env
        readyState_of_update split: option.splits)
  then show ?thesis using a SockOpen by simp
next
  case (SockError p)
  assume a: "in_flight w"
  have "in_flight (onerror p (w\<lparr>sockets := (sockets w)[p := CLOSING]\<rparr>))"
    using in_flight_leave [OF a, of CLOSING p]
    by (simp add: onerror_def in_flight_env in_flight_settle readyState_of_env
        readyState_of_update)
  then show ?thesis using a SockError by simp
next
  case (SockClose p)
  assume a: "in_flight w"
  have "in_flight (onclose p (w\<lparr>sockets := (sockets w)[p := CLOSED]\<rparr>))"
    using in_flight_leave [OF a, of CLOSED p]
    by (simp add: onclose_def Let_def in_flight_env)
  then show ?thesis using a SockClose by simp
next
  case (SockMessage p m)
  assume a: "in_flight w"
  have "in_flight (onmessage m w)"
    using a by (simp add: onmessage_def call_def in_flight_env split: option.splits sum.splits callback.splits)
  then show ?thesis using a SockMessage by simp
next
  case (TimeoutFired h)
  assume "in_flight w" then show ?thesis using TimeoutFired
    by (simp add: in_flight_connect in_flight_env)
next
  case (IntervalTick h)
  assume "in_flight w" then show ?thesis using IntervalTick
    by (simp add: heartBeatTick_def in_flight_env split: option.splits)
qed

lemma in_flight_run: "in_flight w \<Longrightarrow> in_flight (run w es)"
  by (induction es arbitrary: w) (simp_all add: run_Nil run_Cons in_flight_step)

lemma one_connecting:
  assumes "\<forall>i < length xs. xs ! i = CONNECTING \<longrightarrow> Suc i = length xs"
  shows "length (filter (\<lambda>r. r = CONNECTING) xs) \<le> 1"
proof (cases xs rule: rev_cases)
  case Nil then show ?thesis by simp
next
  case (snoc ys y)
  have "filter (\<lambda>r. r = CONNECTING) ys = []"
  proof (rule ccontr)
    assume "filter (\<lambda>r. r = CONNECTING) ys \<noteq> []"
    then obtain i where i: "i < length ys" "ys ! i = CONNECTING"
      by (auto simp: filter_empty_conv in_set_conv_nth)
    with assms snoc show False by (auto simp: nth_append split: if_splits)
  qed
  with snoc show ?thesis by simp
qed


text \<open>
  C9, as the specification has it: at most one transport exists at any time. A
  \<open>connect()\<close> on a manager whose connection is open makes a second socket, and the
  first one is neither closed nor released.
\<close>

theorem second_transport:
  "sockets (run fresh [Connect, SockOpen 0, Connect]) = [OPEN, CONNECTING]
   \<and> trace (run fresh [Connect, SockOpen 0, Connect]) = trace opened @ [Created 1]"
  by (simp add: opened_value run_Cons run_Nil handler_defs fresh_def new_manager_def)

text \<open>
  C9, amended. A call of \<open>connect()\<close> while the flag of the connect in flight is set
  returns at once and changes nothing; a call while it is clear makes exactly one new
  transport, which becomes the one the manager holds, whatever the state of the one it
  held. At any time of any run of a new manager at most one transport is connecting.
\<close>

theorem connect_in_flight:
  "(socketConnecting w \<longrightarrow> step w Connect = w)
   \<and> (\<not> socketConnecting w \<longrightarrow>
        sockets (step w Connect) = sockets w @ [CONNECTING]
        \<and> socket (step w Connect) = Some (length (sockets w))
        \<and> trace (step w Connect) = trace w @ [Created (length (sockets w))])
   \<and> length (filter (\<lambda>r. r = CONNECTING) (sockets (run (new_manager u a t) es))) \<le> 1"
proof -
  have "in_flight (run (new_manager u a t) es)"
    by (rule in_flight_run [OF in_flight_new])
  then have "\<forall>i < length (sockets (run (new_manager u a t) es)).
      sockets (run (new_manager u a t) es) ! i = CONNECTING \<longrightarrow>
      Suc i = length (sockets (run (new_manager u a t) es))"
    by (simp add: in_flight_def)
  then have "length (filter (\<lambda>r. r = CONNECTING) (sockets (run (new_manager u a t) es))) \<le> 1"
    by (rule one_connecting)
  then show ?thesis by (simp add: connect_def emit_def Let_def)
qed

theorem connect_in_flight_witness:
  "socketConnecting dialing \<and> step dialing Connect = dialing
   \<and> \<not> socketConnecting opened \<and> sockets (step opened Connect) = [OPEN, CONNECTING]
   \<and> length (filter (\<lambda>r. r = CONNECTING) (sockets (run fresh [Connect, SockOpen 0, Connect]))) \<le> 1"
proof -
  have a: "socketConnecting dialing" by (simp add: dialing_value)
  have b: "\<not> socketConnecting opened" "sockets opened = [OPEN]"
    by (simp_all add: opened_value fresh_def new_manager_def)
  show ?thesis
    using connect_in_flight [of dialing "Some ''FA1234''" "Some ''FA1234''" "Some ''s3ss10n''"
          "[Connect, SockOpen 0, Connect]"]
      connect_in_flight [of opened "Some ''FA1234''" "Some ''FA1234''" "Some ''s3ss10n''" "[]"] a b
    by (simp add: fresh_def)
qed

end
